theory Spec2Isabelle
  imports Main "HOL-Library.AList"
begin

section \<open>Values\<close>

text \<open>
  The program (\<^verbatim>\<open>cf_dns_manager.py\<close>) handles three kinds of data: the text typed at the
  console, JSON values decoded from the provider's replies, and the dictionaries it builds
  as request bodies. Text is a \<open>string\<close> (the model is exact for ASCII text). A decoded
  JSON value is a \<open>jval\<close>; a dictionary is the association list of its items in
  insertion order, which is the order Python keeps and serialises. JSON numbers with a
  fraction do not occur in the fields the program reads and are not part of \<open>jval\<close>.
\<close>

datatype jval =
    JNull
  | JBool bool
  | JInt int
  | JStr string
  | JArr "jval list"
  | JObj "(string \<times> jval) list"

text \<open>The exceptions the program can meet. \<open>SystemExit n\<close> is \<^verbatim>\<open>sys.exit(n)\<close>.\<close>

datatype py_exc =
    KeyError jval
  | IndexError
  | TypeError
  | ValueError
  | AttributeError
  | JSONDecodeError
  | EOFError
  | SystemExit int

definition sbind :: "py_exc + 'a \<Rightarrow> ('a \<Rightarrow> py_exc + 'b) \<Rightarrow> py_exc + 'b" where
  "sbind r f = (case r of Inl e \<Rightarrow> Inl e | Inr x \<Rightarrow> f x)"

text \<open>Python's truth value of a decoded JSON value (\<^verbatim>\<open>if v:\<close>).\<close>

fun truthy :: "jval \<Rightarrow> bool" where
  "truthy JNull = False"
| "truthy (JBool b) = b"
| "truthy (JInt n) = (n \<noteq> 0)"
| "truthy (JStr s) = (s \<noteq> [])"
| "truthy (JArr xs) = (xs \<noteq> [])"
| "truthy (JObj kvs) = (kvs \<noteq> [])"

text \<open>\<^verbatim>\<open>v[k]\<close> with a string key: a dictionary looks the key up, anything else refuses.\<close>

fun subscript :: "jval \<Rightarrow> string \<Rightarrow> py_exc + jval" where
  "subscript (JObj kvs) k = (case map_of kvs k of None \<Rightarrow> Inl (KeyError (JStr k)) | Some v \<Rightarrow> Inr v)"
| "subscript v k = Inl TypeError"

text \<open>\<^verbatim>\<open>v[0]\<close>.\<close>

fun index0 :: "jval \<Rightarrow> py_exc + jval" where
  "index0 (JArr []) = Inl IndexError"
| "index0 (JArr (x # xs)) = Inr x"
| "index0 (JStr []) = Inl IndexError"
| "index0 (JStr (c # cs)) = Inr (JStr [c])"
| "index0 (JObj kvs) = Inl (KeyError (JInt 0))"
| "index0 v = Inl TypeError"

text \<open>\<^verbatim>\<open>v.get(k, d)\<close>: only a dictionary has the method.\<close>

fun dict_get :: "jval \<Rightarrow> string \<Rightarrow> jval \<Rightarrow> py_exc + jval" where
  "dict_get (JObj kvs) k d = Inr (case map_of kvs k of None \<Rightarrow> d | Some v \<Rightarrow> v)"
| "dict_get v k d = Inl AttributeError"

subsection \<open>Text\<close>

definition upper_char :: "char \<Rightarrow> char" where
  "upper_char c = (let n = (of_char c :: nat) in if 97 \<le> n \<and> n \<le> 122 then char_of (n - 32) else c)"

definition lower_char :: "char \<Rightarrow> char" where
  "lower_char c = (let n = (of_char c :: nat) in if 65 \<le> n \<and> n \<le> 90 then char_of (n + 32) else c)"

definition upper :: "string \<Rightarrow> string" where
  "upper s = map upper_char s"

definition lower :: "string \<Rightarrow> string" where
  "lower s = map lower_char s"

text \<open>
  \<^verbatim>\<open>int(s)\<close> in base ten, for a string of ASCII characters: the white space around the
  numeral is dropped (the characters \<^verbatim>\<open>0x09\<close> to \<^verbatim>\<open>0x0D\<close> and the blank \<^verbatim>\<open>0x20\<close>, no other), one
  sign is allowed, and the digits may be grouped by single underscores. A numeral of more
  than \<open>INT_MAX_STR_DIGITS\<close> digits is refused with \<^verbatim>\<open>ValueError\<close>, like one that is not a
  numeral: this is the limit of Python 3.11 and later, at its default value.
\<close>

definition is_space :: "char \<Rightarrow> bool" where
  "is_space c = (let n = (of_char c :: nat) in n = 32 \<or> (9 \<le> n \<and> n \<le> 13))"

definition is_digit :: "char \<Rightarrow> bool" where
  "is_digit c = (let n = (of_char c :: nat) in 48 \<le> n \<and> n \<le> 57)"

definition strip :: "string \<Rightarrow> string" where
  "strip s = rev (dropWhile is_space (rev (dropWhile is_space s)))"

text \<open>\<open>digits_value acc s\<close> reads \<open>s\<close>, which follows a digit, with \<open>acc\<close> read so far.\<close>

fun digits_value :: "nat \<Rightarrow> string \<Rightarrow> nat option" where
  "digits_value acc [] = Some acc"
| "digits_value acc [c] = (if is_digit c then Some (10 * acc + (of_char c - 48)) else None)"
| "digits_value acc (c # d # cs) =
     (if is_digit c then digits_value (10 * acc + (of_char c - 48)) (d # cs)
      else if c = CHR ''_'' \<and> is_digit d then digits_value acc (d # cs)
      else None)"

definition INT_MAX_STR_DIGITS :: nat where
  "INT_MAX_STR_DIGITS = 4300"

definition unsigned_value :: "string \<Rightarrow> nat option" where
  "unsigned_value s =
     (case s of
        [] \<Rightarrow> None
      | c # cs \<Rightarrow>
          if is_digit c \<and> length (filter is_digit s) \<le> INT_MAX_STR_DIGITS then digits_value 0 s
          else None)"

definition py_int :: "string \<Rightarrow> py_exc + int" where
  "py_int s =
     (let t = strip s;
          r = (case t of
                 [] \<Rightarrow> None
               | c # cs \<Rightarrow>
                   if c = CHR ''-'' then map_option (\<lambda>n. - int n) (unsigned_value cs)
                   else if c = CHR ''+'' then map_option int (unsigned_value cs)
                   else map_option int (unsigned_value t))
      in case r of None \<Rightarrow> Inl ValueError | Some n \<Rightarrow> Inr n)"

subsection \<open>What the console shows\<close>

text \<open>
  A printed line is the list of the pieces of the f-string given to \<^verbatim>\<open>console.print\<close> or
  \<^verbatim>\<open>console.input\<close>: literal text, and interpolated values.
\<close>

datatype piece = S string | V jval

fun decimal :: "nat \<Rightarrow> string" where
  "decimal n = (if n < 10 then [char_of (48 + n)] else decimal (n div 10) @ [char_of (48 + n mod 10)])"

text \<open>
  A table cell is a value handed to \<^verbatim>\<open>Table.add_row\<close> as it is (\<open>Raw\<close>), or the text
  \<^verbatim>\<open>str(v)\<close>. For a list or a dictionary \<^verbatim>\<open>str\<close> gives Python's \<^verbatim>\<open>repr\<close>, which is kept
  symbolic (\<open>Repr\<close>).
\<close>

datatype cell = Raw jval | Text string | Repr jval

fun py_str :: "jval \<Rightarrow> cell" where
  "py_str (JStr s) = Text s"
| "py_str (JInt n) = Text (if n < 0 then CHR ''-'' # decimal (nat (- n)) else decimal (nat n))"
| "py_str (JBool b) = Text (if b then ''True'' else ''False'')"
| "py_str JNull = Text ''None''"
| "py_str v = Repr v"

datatype event =
    Print "piece list"
  | Prompt "piece list"
  | Table "piece list" "string list" "cell list list"

section \<open>The process and its surroundings\<close>

datatype http_method = GET | POST | PUT | DELETE

record request =
  verb :: http_method
  url :: string
  headers :: "(string \<times> string) list"
  json :: "(string \<times> jval) list option"

text \<open>
  What \<^verbatim>\<open>requests\<close> does with a request:
  \<^item> \<open>Ok v\<close>: a reply that \<^verbatim>\<open>raise_for_status\<close> accepts, with body \<open>v\<close>;
  \<^item> \<open>HTTPError msg body\<close>: a reply with an error status, so \<^verbatim>\<open>raise_for_status\<close> raises
    an exception \<open>e\<close> with \<^verbatim>\<open>str(e) = msg\<close> and \<^verbatim>\<open>e.response\<close> the reply, whose body decodes
    to \<open>body\<close> (\<open>None\<close> when it is not JSON);
  \<^item> \<open>NoResponse msg\<close>: no reply at all (connection refused, timeout, ...), the request
    call itself raises \<open>e\<close> with \<^verbatim>\<open>str(e) = msg\<close> and \<^verbatim>\<open>e.response\<close> is \<^verbatim>\<open>None\<close>.
\<close>

datatype reply =
    Ok jval
  | HTTPError string "jval option"
  | NoResponse string

text \<open>
  The state: the module's globals read from the environment, the lines the user is going to
  type, what the console has shown, the requests sent so far, and the provider, which
  answers a request knowing the ones before it.
\<close>

record world =
  cf_email :: string
  cf_api_key :: string
  cf_domain :: string
  keyboard :: "string list"
  console :: "event list"
  http_log :: "request list"
  net :: "request list \<Rightarrow> request \<Rightarrow> reply"

type_synonym 'a prog = "world \<Rightarrow> (py_exc + 'a) \<times> world"

definition ret :: "'a \<Rightarrow> 'a prog" where
  "ret x w = (Inr x, w)"

definition raise :: "py_exc \<Rightarrow> 'a prog" where
  "raise e w = (Inl e, w)"

definition lift :: "py_exc + 'a \<Rightarrow> 'a prog" where
  "lift r w = (r, w)"

definition bind :: "'a prog \<Rightarrow> ('a \<Rightarrow> 'b prog) \<Rightarrow> 'b prog" where
  "bind m f w = (case m w of (Inl e, w') \<Rightarrow> (Inl e, w') | (Inr x, w') \<Rightarrow> f x w')"

text \<open>Reading a module global.\<close>

definition global :: "(world \<Rightarrow> 'a) \<Rightarrow> 'a prog" where
  "global g w = (Inr (g w), w)"

definition console_print :: "piece list \<Rightarrow> unit prog" where
  "console_print ps w = (Inr (), w\<lparr>console := console w @ [Print ps]\<rparr>)"

definition console_input :: "piece list \<Rightarrow> string prog" where
  "console_input ps w =
     (case keyboard w of
        [] \<Rightarrow> (Inl EOFError, w\<lparr>console := console w @ [Prompt ps]\<rparr>)
      | l # ls \<Rightarrow> (Inr l, w\<lparr>console := console w @ [Prompt ps], keyboard := ls\<rparr>))"

definition API_BASE_URL :: string where
  "API_BASE_URL = ''https://api.cloudflare.com/client/v4''"

definition HEADERS :: "world \<Rightarrow> (string \<times> string) list" where
  "HEADERS w = [(''X-Auth-Email'', cf_email w), (''X-Auth-Key'', cf_api_key w),
                (''Content-Type'', ''application/json'')]"

text \<open>\<^verbatim>\<open>requests.get/post/put/delete(url, headers=HEADERS, json=...)\<close>: the request goes out.\<close>

definition request_of :: "http_method \<Rightarrow> string \<Rightarrow> (string \<times> jval) list option \<Rightarrow> world \<Rightarrow> request" where
  "request_of m u b w = \<lparr>verb = m, url = u, headers = HEADERS w, json = b\<rparr>"

definition send :: "http_method \<Rightarrow> string \<Rightarrow> (string \<times> jval) list option \<Rightarrow> reply prog" where
  "send m u b w =
     (let r = request_of m u b w
      in (Inr (net w (http_log w) r), w\<lparr>http_log := http_log w @ [r]\<rparr>))"

section \<open>Reading: zone and records\<close>

definition get_zone_id :: "string \<Rightarrow> jval prog" where
  "get_zone_id domain_name =
     bind (send GET (API_BASE_URL @ ''/zones?name='' @ domain_name) None) (\<lambda>response.
       case response of
         Ok data \<Rightarrow>
           bind (lift (subscript data ''result'')) (\<lambda>result.
             if truthy result
             then lift (sbind (index0 result) (\<lambda>z. subscript z ''id''))
             else bind (console_print [S (''[bold red]Error: Domain '' @ [CHR 0x27]), S domain_name,
                                       S (CHR 0x27 # '' not found in your Cloudflare account.[/bold red]'')])
                       (\<lambda>_. raise (SystemExit 1)))
       | HTTPError e body \<Rightarrow>
           bind (console_print [S ''[bold red]API Request Error: '', S e, S ''[/bold red]''])
                (\<lambda>_. raise (SystemExit 1))
       | NoResponse e \<Rightarrow>
           bind (console_print [S ''[bold red]API Request Error: '', S e, S ''[/bold red]''])
                (\<lambda>_. raise (SystemExit 1)))"

definition get_dns_records :: "string \<Rightarrow> jval prog" where
  "get_dns_records zone_id =
     bind (send GET (API_BASE_URL @ ''/zones/'' @ zone_id @ ''/dns_records'') None) (\<lambda>response.
       case response of
         Ok data \<Rightarrow> lift (subscript data ''result'')
       | HTTPError e body \<Rightarrow>
           bind (console_print [S ''[bold red]API Request Error: '', S e, S ''[/bold red]''])
                (\<lambda>_. ret (JArr []))
       | NoResponse e \<Rightarrow>
           bind (console_print [S ''[bold red]API Request Error: '', S e, S ''[/bold red]''])
                (\<lambda>_. ret (JArr [])))"

section \<open>Showing the records\<close>

definition COLUMNS :: "string list" where
  "COLUMNS = [''ID'', ''Type'', ''Name'', ''Content'', ''TTL'', ''Priority'', ''Proxy'']"

text \<open>The arguments of one \<^verbatim>\<open>table.add_row\<close> call, evaluated from left to right.\<close>

definition table_row :: "jval \<Rightarrow> py_exc + cell list" where
  "table_row record =
     sbind (subscript record ''id'') (\<lambda>i.
     sbind (subscript record ''type'') (\<lambda>t.
     sbind (subscript record ''name'') (\<lambda>n.
     sbind (subscript record ''content'') (\<lambda>c.
     sbind (subscript record ''ttl'') (\<lambda>l.
     sbind (dict_get record ''priority'' (JStr ''N/A'')) (\<lambda>p.
     sbind (subscript record ''proxied'') (\<lambda>x.
       Inr [Raw i, Raw t, Raw n, Raw c, py_str l, py_str p,
            Text (if truthy x then ''On'' else ''Off'')])))))))"

fun table_rows :: "jval list \<Rightarrow> py_exc + cell list list" where
  "table_rows [] = Inr []"
| "table_rows (record # records) =
     sbind (table_row record) (\<lambda>row. sbind (table_rows records) (\<lambda>rows. Inr (row # rows)))"

text \<open>The table reaches the console only after the loop, by \<^verbatim>\<open>console.print(table)\<close>.\<close>

definition console_print_table :: "piece list \<Rightarrow> string list \<Rightarrow> cell list list \<Rightarrow> unit prog" where
  "console_print_table title columns rows w =
     (Inr (), w\<lparr>console := console w @ [Table title columns rows]\<rparr>)"

definition display_dns_records :: "jval list \<Rightarrow> unit prog" where
  "display_dns_records records =
     bind (global cf_domain) (\<lambda>CF_DOMAIN.
     bind (lift (table_rows records)) (\<lambda>rows.
       console_print_table [S ''DNS Records for '', S CF_DOMAIN] COLUMNS rows))"

section \<open>Writing: add, update, delete\<close>

text \<open>\<^verbatim>\<open>e.response.json()["errors"][0]["message"]\<close>, given what the reply's body decodes to.\<close>

definition error_message :: "jval option \<Rightarrow> py_exc + jval" where
  "error_message body =
     (case body of
        None \<Rightarrow> Inl JSONDecodeError
      | Some j \<Rightarrow> sbind (subscript j ''errors'') (\<lambda>errors. sbind (index0 errors) (\<lambda>first. subscript first ''message'')))"

definition add_dns_record :: "string \<Rightarrow> unit prog" where
  "add_dns_record zone_id =
     bind (console_print [S (CHR 0x0A # ''[bold]Add a new DNS Record[/bold]'')]) (\<lambda>_.
     bind (console_input [S ''Enter record type (A, AAAA, CNAME, TXT, etc.): '']) (\<lambda>typed.
     let record_type = upper typed in
     bind (global cf_domain) (\<lambda>CF_DOMAIN.
     bind (console_input [S (''Enter name (e.g., '' @ [CHR 0x27] @ ''subdomain'' @ [CHR 0x27] @ '' for subdomain.''),
                          S CF_DOMAIN, S ''): '']) (\<lambda>name.
     bind (console_input [S ''Enter content (e.g., IP address or another domain): '']) (\<lambda>content.
     bind (console_input [S ''Enter TTL (in seconds, 1 for auto): '']) (\<lambda>ttl_str.
     bind (if ttl_str \<noteq> [] then lift (py_int ttl_str) else ret 1) (\<lambda>ttl.
     let data = [(''type'', JStr record_type), (''name'', JStr name),
                 (''content'', JStr content), (''ttl'', JInt ttl)] in
     bind (if record_type = ''MX''
           then bind (console_input [S ''Enter priority: '']) (\<lambda>priority_str.
                bind (lift (py_int priority_str)) (\<lambda>priority.
                  ret (AList.update ''priority'' (JInt priority) data)))
           else ret data) (\<lambda>data.
     bind (console_input [S ''Enable Cloudflare proxy? (yes/no): '']) (\<lambda>answer.
     let proxied_input = lower answer;
         proxied = (proxied_input = ''yes'');
         data = AList.update ''proxied'' (JBool proxied) data in
     bind (send POST (API_BASE_URL @ ''/zones/'' @ zone_id @ ''/dns_records'') (Some data)) (\<lambda>response.
       case response of
         Ok _ \<Rightarrow> console_print [S (CHR 0x0A # ''[bold green]Successfully added DNS record.[/bold green]'')]
       | HTTPError e body \<Rightarrow>
           bind (lift (error_message body)) (\<lambda>m.
             console_print [S ''[bold red]Error adding DNS record: '', V m, S ''[/bold red]''])
       | NoResponse e \<Rightarrow> raise AttributeError))))))))))"

text \<open>\<^verbatim>\<open>next((r for r in records if r['id'] == record_id), None)\<close>.\<close>

fun find_record :: "jval list \<Rightarrow> string \<Rightarrow> py_exc + jval option" where
  "find_record [] record_id = Inr None"
| "find_record (r # rs) record_id =
     sbind (subscript r ''id'') (\<lambda>i. if i = JStr record_id then Inr (Some r) else find_record rs record_id)"

text \<open>\<^verbatim>\<open>any(r['id'] == record_id for r in records)\<close>.\<close>

fun any_record :: "jval list \<Rightarrow> string \<Rightarrow> py_exc + bool" where
  "any_record [] record_id = Inr False"
| "any_record (r # rs) record_id =
     sbind (subscript r ''id'') (\<lambda>i. if i = JStr record_id then Inr True else any_record rs record_id)"

text \<open>\<^verbatim>\<open>console.input(f"... ({record[k]}): ") or record[k]\<close>: the prompt shows the current
  value, and a blank answer keeps it.\<close>

definition input_or :: "string \<Rightarrow> jval \<Rightarrow> string \<Rightarrow> jval prog" where
  "input_or label record k =
     bind (lift (subscript record k)) (\<lambda>current.
     bind (console_input [S label, V current, S ''): '']) (\<lambda>typed.
       if typed \<noteq> [] then ret (JStr typed) else lift (subscript record k)))"

text \<open>The part of \<^verbatim>\<open>update_dns_record\<close> after the record has been found.\<close>

definition update_found :: "string \<Rightarrow> string \<Rightarrow> jval \<Rightarrow> unit prog" where
  "update_found zone_id record_id record_to_update =
     bind (console_print [S (CHR 0x0A # ''[bold]Update DNS Record[/bold] (press Enter to keep current value)'')]) (\<lambda>_.
     bind (input_or ''Enter new type ('' record_to_update ''type'') (\<lambda>record_type.
     bind (input_or ''Enter new name ('' record_to_update ''name'') (\<lambda>name.
     bind (input_or ''Enter new content ('' record_to_update ''content'') (\<lambda>content.
     bind (lift (subscript record_to_update ''ttl'')) (\<lambda>current_ttl.
     bind (console_input [S ''Enter new TTL ('', V current_ttl, S ''): '']) (\<lambda>ttl_str.
     bind (if ttl_str \<noteq> [] then lift (sbind (py_int ttl_str) (\<lambda>n. Inr (JInt n)))
           else lift (subscript record_to_update ''ttl'')) (\<lambda>ttl.
     let data = [(''type'', record_type), (''name'', name), (''content'', content), (''ttl'', ttl)] in
     bind (if record_type = JStr ''MX''
           then bind (lift (dict_get record_to_update ''priority'' (JStr ''''))) (\<lambda>default_priority.
                bind (console_input [S ''Enter new priority ('', V default_priority, S ''): '']) (\<lambda>priority_str.
                  if priority_str \<noteq> []
                  then bind (lift (py_int priority_str)) (\<lambda>n. ret (AList.update ''priority'' (JInt n) data))
                  else if truthy default_priority
                  then ret (AList.update ''priority'' default_priority data)
                  else ret data))
           else ret data) (\<lambda>data.
     bind (lift (subscript record_to_update ''proxied'')) (\<lambda>current_proxied.
     bind (console_input [S ''Enable Cloudflare proxy? ('',
                          S (if truthy current_proxied then ''yes'' else ''no''), S ''): '']) (\<lambda>answer.
     let proxied_input = lower answer in
     bind (if proxied_input \<noteq> [] then ret (JBool (proxied_input = ''yes''))
           else lift (subscript record_to_update ''proxied'')) (\<lambda>proxied.
     let data = AList.update ''proxied'' proxied data in
     bind (send PUT (API_BASE_URL @ ''/zones/'' @ zone_id @ ''/dns_records/'' @ record_id) (Some data)) (\<lambda>response.
       case response of
         Ok _ \<Rightarrow> console_print [S (CHR 0x0A # ''[bold green]Successfully updated DNS record.[/bold green]'')]
       | HTTPError e body \<Rightarrow>
           bind (lift (error_message body)) (\<lambda>m.
             console_print [S ''[bold red]Error updating DNS record: '', V m, S ''[/bold red]''])
       | NoResponse e \<Rightarrow> raise AttributeError))))))))))))"

definition update_dns_record :: "string \<Rightarrow> jval list \<Rightarrow> unit prog" where
  "update_dns_record zone_id records =
     bind (display_dns_records records) (\<lambda>_.
     bind (console_input [S (CHR 0x0A # ''Enter the ID of the record to update: '')]) (\<lambda>record_id.
     bind (lift (find_record records record_id)) (\<lambda>found.
       case found of
         None \<Rightarrow> console_print [S ''[bold red]Record ID not found.[/bold red]'']
       | Some record_to_update \<Rightarrow>
           if \<not> truthy record_to_update
           then console_print [S ''[bold red]Record ID not found.[/bold red]'']
           else update_found zone_id record_id record_to_update)))"

definition delete_dns_record :: "string \<Rightarrow> jval list \<Rightarrow> unit prog" where
  "delete_dns_record zone_id records =
     bind (display_dns_records records) (\<lambda>_.
     bind (console_input [S (CHR 0x0A # ''Enter the ID of the record to delete: '')]) (\<lambda>record_id.
     bind (lift (any_record records record_id)) (\<lambda>known.
     if \<not> known
     then console_print [S ''[bold red]Record ID not found.[/bold red]'']
     else
     bind (console_input [S ''Are you sure you want to delete record '', S record_id, S ''? (yes/no): '']) (\<lambda>answer.
     let confirmation = lower answer in
     if confirmation = ''yes''
     then bind (send DELETE (API_BASE_URL @ ''/zones/'' @ zone_id @ ''/dns_records/'' @ record_id) None) (\<lambda>response.
            case response of
              Ok _ \<Rightarrow> console_print [S (CHR 0x0A # ''[bold green]Successfully deleted DNS record.[/bold green]'')]
            | HTTPError e body \<Rightarrow> console_print [S ''[bold red]Error deleting DNS record: '', S e, S ''[/bold red]'']
            | NoResponse e \<Rightarrow> console_print [S ''[bold red]Error deleting DNS record: '', S e, S ''[/bold red]''])
     else console_print [S ''Deletion cancelled.'']))))"

section \<open>Notions used to state the properties\<close>

text \<open>A transport error: the exception text when \<^verbatim>\<open>requests\<close> raises, \<open>None\<close> otherwise.\<close>

fun failure :: "reply \<Rightarrow> string option" where
  "failure (Ok v) = None"
| "failure (HTTPError e body) = Some e"
| "failure (NoResponse e) = Some e"

text \<open>
  Text of ASCII characters only. \<open>upper\<close> changes the letters \<^verbatim>\<open>a\<close> to \<^verbatim>\<open>z\<close> and no other
  character, which is what \<^verbatim>\<open>str.upper\<close> does on such text.
\<close>

definition ascii_text :: "string \<Rightarrow> bool" where
  "ascii_text s = list_all (\<lambda>c. (of_char c :: nat) < 128) s"

text \<open>The spellings that are \<^verbatim>\<open>yes\<close> when upper and lower case are not told apart.\<close>

definition yes_spellings :: "string set" where
  "yes_spellings = {''yes'', ''yeS'', ''yEs'', ''yES'', ''Yes'', ''YeS'', ''YEs'', ''YES''}"

text \<open>A record as the provider lists it: a dictionary with at least the six keys.\<close>

definition RECORD_KEYS :: "string list" where
  "RECORD_KEYS = [''id'', ''type'', ''name'', ''content'', ''ttl'', ''proxied'']"

fun has_fields :: "jval \<Rightarrow> bool" where
  "has_fields (JObj kvs) = list_all (\<lambda>k. map_of kvs k \<noteq> None) RECORD_KEYS"
| "has_fields v = False"

text \<open>The items of a dictionary at the keys \<open>ks\<close>, in the order of \<open>ks\<close>, absent keys left out.\<close>

definition fields_of :: "(string \<times> jval) list \<Rightarrow> string list \<Rightarrow> (string \<times> jval) list" where
  "fields_of kvs ks = concat (map (\<lambda>k. case map_of kvs k of None \<Rightarrow> [] | Some v \<Rightarrow> [(k, v)]) ks)"

text \<open>
  The field values of a snapshot record that an update is compared with: \<^verbatim>\<open>type\<close>, \<^verbatim>\<open>name\<close>,
  \<^verbatim>\<open>content\<close>, \<^verbatim>\<open>ttl\<close>, \<^verbatim>\<open>priority\<close> if the record has one, \<^verbatim>\<open>proxied\<close>.
\<close>

definition snapshot_fields :: "jval \<Rightarrow> (string \<times> jval) list" where
  "snapshot_fields r =
     (case r of
        JObj kvs \<Rightarrow> fields_of kvs [''type'', ''name'', ''content'', ''ttl'', ''priority'', ''proxied'']
      | _ \<Rightarrow> [])"

text \<open>The rule on \<^verbatim>\<open>priority\<close>, and its half that holds of every update.\<close>

definition priority_iff_MX :: "(string \<times> jval) list \<Rightarrow> bool" where
  "priority_iff_MX body = ((''priority'' \<in> fst ` set body) = (map_of body ''type'' = Some (JStr ''MX'')))"

definition priority_only_MX :: "(string \<times> jval) list \<Rightarrow> bool" where
  "priority_only_MX body = (map_of body ''type'' = Some (JStr ''MX'') \<or> ''priority'' \<notin> fst ` set body)"

text \<open>A world to run the program in: nothing shown or sent yet, \<open>keys\<close> to be typed, and a
  provider that answers by \<open>provider\<close>.\<close>

definition demo :: "string list \<Rightarrow> (request \<Rightarrow> reply) \<Rightarrow> world" where
  "demo keys provider =
     \<lparr>cf_email = ''me@example.com'', cf_api_key = ''secret'', cf_domain = ''example.com'',
      keyboard = keys, console = [], http_log = [], net = (\<lambda>sent. provider)\<rparr>"

definition always :: "reply \<Rightarrow> request \<Rightarrow> reply" where
  "always r q = r"

definition record_A :: jval where
  "record_A = JObj [(''id'', JStr ''r1''), (''type'', JStr ''A''), (''name'', JStr ''www''),
                    (''content'', JStr ''1.2.3.4''), (''ttl'', JInt 1), (''proxied'', JBool True)]"

definition record_MX :: jval where
  "record_MX = JObj [(''id'', JStr ''r2''), (''type'', JStr ''MX''), (''name'', JStr ''example.com''),
                     (''content'', JStr ''mail.example.com''), (''ttl'', JInt 300),
                     (''priority'', JInt 10), (''proxied'', JBool False)]"

definition record_SRV :: jval where
  "record_SRV = JObj [(''id'', JStr ''r3''), (''type'', JStr ''SRV''), (''name'', JStr ''_sip._tcp''),
                      (''content'', JStr ''5 5060 sip.example.com''), (''ttl'', JInt 1),
                      (''priority'', JInt 10), (''proxied'', JBool False)]"

text \<open>
  What a program sends. \<open>quiet m\<close>: running \<open>m\<close> sends nothing. \<open>sends P m\<close>: running \<open>m\<close>
  sends nothing, or exactly one request, and that request satisfies \<open>P\<close>.
\<close>

definition quiet :: "'a prog \<Rightarrow> bool" where
  "quiet m = (\<forall>w. http_log (snd (m w)) = http_log w)"

definition sends :: "(request \<Rightarrow> bool) \<Rightarrow> 'a prog \<Rightarrow> bool" where
  "sends P m = (\<forall>w. http_log (snd (m w)) = http_log w
                   \<or> (\<exists>q. http_log (snd (m w)) = http_log w @ [q] \<and> P q))"

text \<open>\<open>yields Q m\<close>: every value that \<open>m\<close> returns satisfies \<open>Q\<close>.\<close>

definition yields :: "('a \<Rightarrow> bool) \<Rightarrow> 'a prog \<Rightarrow> bool" where
  "yields Q m = (\<forall>w x w'. m w = (Inr x, w') \<longrightarrow> Q x)"

text \<open>The keys of a body, as the claim about creation lists them.\<close>

definition create_fields :: "(string \<times> jval) list \<Rightarrow> bool" where
  "create_fields body =
     (map fst body = [''type'', ''name'', ''content'', ''ttl''] @
        (if map_of body ''type'' = Some (JStr ''MX'') then [''priority''] else []) @ [''proxied''])"

definition create_request :: "string \<Rightarrow> request \<Rightarrow> bool" where
  "create_request zone_id q =
     (verb q = POST \<and> url q = API_BASE_URL @ ''/zones/'' @ zone_id @ ''/dns_records''
      \<and> (case json q of None \<Rightarrow> False | Some body \<Rightarrow> create_fields body))"

section \<open>Running a program step by step\<close>

lemma bind_ret [simp]: "bind (ret x) f = f x"
  by (rule ext) (simp add: bind_def ret_def)

lemma bind_raise [simp]: "bind (raise e) f = raise e"
  by (rule ext) (simp add: bind_def raise_def)

lemma bind_lift_Inr [simp]: "bind (lift (Inr x)) f = f x"
  by (rule ext) (simp add: bind_def lift_def)

lemma bind_lift_Inl [simp]: "bind (lift (Inl e)) f = raise e"
  by (rule ext) (simp add: bind_def lift_def raise_def)

lemma bind_console_print [simp]:
  "bind (console_print ps) f w = f () (w\<lparr>console := console w @ [Print ps]\<rparr>)"
  by (simp add: bind_def console_print_def)

lemma bind_global [simp]: "bind (global g) f w = f (g w) w"
  by (simp add: bind_def global_def)

lemma bind_lift:
  "bind (lift r) f w = (case r of Inl e \<Rightarrow> (Inl e, w) | Inr x \<Rightarrow> f x w)"
  by (simp add: bind_def lift_def split: sum.splits)

lemma bind_console_input:
  "bind (console_input ps) f w =
     (case keyboard w of
        [] \<Rightarrow> (Inl EOFError, w\<lparr>console := console w @ [Prompt ps]\<rparr>)
      | l # ls \<Rightarrow> f l (w\<lparr>console := console w @ [Prompt ps], keyboard := ls\<rparr>))"
  by (simp add: bind_def console_input_def split: list.splits)

lemma bind_display:
  "table_rows records = Inr rows \<Longrightarrow>
   bind (display_dns_records records) f w =
   f () (w\<lparr>console := console w @ [Table [S ''DNS Records for '', S (cf_domain w)] COLUMNS rows]\<rparr>)"
  by (simp add: bind_def display_dns_records_def global_def lift_def console_print_table_def)

lemma bind_console_input_Cons:
  "keyboard w = l # ls \<Longrightarrow>
   bind (console_input ps) f w = f l (w\<lparr>console := console w @ [Prompt ps], keyboard := ls\<rparr>)"
  by (simp add: bind_def console_input_def)

lemma bind_console_input_Nil:
  "keyboard w = [] \<Longrightarrow>
   bind (console_input ps) f w = (Inl EOFError, w\<lparr>console := console w @ [Prompt ps]\<rparr>)"
  by (simp add: bind_def console_input_def)

lemma bind_send [simp]:
  "bind (send m u b) f w =
   f (net w (http_log w) (request_of m u b w)) (w\<lparr>http_log := http_log w @ [request_of m u b w]\<rparr>)"
  by (simp add: bind_def send_def Let_def)

lemma request_of_update [simp]:
  "request_of m u b (w\<lparr>console := c\<rparr>) = request_of m u b w"
  "request_of m u b (w\<lparr>keyboard := k\<rparr>) = request_of m u b w"
  "request_of m u b (w\<lparr>http_log := h\<rparr>) = request_of m u b w"
  by (simp_all add: request_of_def HEADERS_def)

lemma bind_assoc [simp]: "bind (bind m f) g = bind m (\<lambda>x. bind (f x) g)"
  by (rule ext) (simp add: bind_def split: prod.splits sum.splits)

lemma bind_if: "bind (if c then a else b) f = (if c then bind a f else bind b f)"
  by simp

subsection \<open>What a program sends\<close>

lemma quiet_simple [simp]:
  "quiet (ret x)" "quiet (raise e)" "quiet (lift r)" "quiet (global g)"
  "quiet (console_print ps)" "quiet (console_input ps)" "quiet (console_print_table t c rows)"
  by (simp_all add: quiet_def ret_def raise_def lift_def global_def console_print_def
        console_input_def console_print_table_def split: list.splits)

lemma quiet_bind: "quiet m \<Longrightarrow> (\<And>x. quiet (f x)) \<Longrightarrow> quiet (bind m f)"
  unfolding quiet_def bind_def
  by (auto split: prod.splits sum.splits) (metis snd_conv)+

lemma sends_quiet: "quiet m \<Longrightarrow> sends P m"
  by (simp add: quiet_def sends_def)

lemma sends_bind: "quiet m \<Longrightarrow> (\<And>x. sends P (f x)) \<Longrightarrow> sends P (bind m f)"
  unfolding quiet_def sends_def bind_def
  by (auto split: prod.splits sum.splits) (metis snd_conv)+

lemma sends_send:
  "(\<And>w. P (request_of m u b w)) \<Longrightarrow> (\<And>x. quiet (f x)) \<Longrightarrow> sends P (bind (send m u b) f)"
  unfolding quiet_def sends_def by simp

lemmas sends_step =
  sends_bind [OF quiet_simple(3)] sends_bind [OF quiet_simple(4)]
  sends_bind [OF quiet_simple(5)] sends_bind [OF quiet_simple(6)]
  sends_bind [OF quiet_simple(7)]

lemma sends_leaf [simp]:
  "sends P (ret x)" "sends P (raise e)" "sends P (lift r)" "sends P (console_print ps)"
  by (simp_all add: sends_quiet)

lemma quiet_error_report [simp]:
  "quiet (case r of Ok v \<Rightarrow> console_print a
                  | HTTPError e body \<Rightarrow> bind (lift (error_message body)) (\<lambda>m. console_print (b m))
                  | NoResponse e \<Rightarrow> raise AttributeError)"
  by (cases r) (auto intro!: quiet_bind)

subsection \<open>Upper and lower case\<close>

lemma lower_char_y: "lower_char c = CHR ''y'' \<longleftrightarrow> c = CHR ''y'' \<or> c = CHR ''Y''"
  by (cases c) (auto simp: lower_char_def Let_def char_of_eq_iff)

lemma lower_char_e: "lower_char c = CHR ''e'' \<longleftrightarrow> c = CHR ''e'' \<or> c = CHR ''E''"
  by (cases c) (auto simp: lower_char_def Let_def char_of_eq_iff)

lemma lower_char_s: "lower_char c = CHR ''s'' \<longleftrightarrow> c = CHR ''s'' \<or> c = CHR ''S''"
  by (cases c) (auto simp: lower_char_def Let_def char_of_eq_iff)

lemma lower_yes_only_if:
  assumes "lower s = ''yes''" shows "s \<in> yes_spellings"
proof -
  from assms obtain a b c where s: "s = [a, b, c]"
    and a: "lower_char a = CHR ''y''" and b: "lower_char b = CHR ''e''" and c: "lower_char c = CHR ''s''"
    by (auto simp: lower_def map_eq_Cons_conv)
  from a have "a = CHR ''y'' \<or> a = CHR ''Y''" by (simp only: lower_char_y)
  moreover from b have "b = CHR ''e'' \<or> b = CHR ''E''" by (simp only: lower_char_e)
  moreover from c have "c = CHR ''s'' \<or> c = CHR ''S''" by (simp only: lower_char_s)
  ultimately show ?thesis unfolding s yes_spellings_def by fastforce
qed

lemma lower_yes_if:
  assumes "s \<in> yes_spellings" shows "lower s = ''yes''"
  using assms unfolding yes_spellings_def
  by (auto simp: lower_def lower_char_y lower_char_e lower_char_s)

lemma lower_yes: "lower s = ''yes'' \<longleftrightarrow> s \<in> yes_spellings"
  using lower_yes_only_if lower_yes_if by blast

subsection \<open>Records with the six keys\<close>

lemma has_fields_subscript:
  "has_fields r \<Longrightarrow> k \<in> set RECORD_KEYS \<Longrightarrow> \<exists>v. subscript r k = Inr v"
  by (cases r) (auto simp: list_all_iff split: option.splits)

lemma has_fields_get:
  "has_fields r \<Longrightarrow> \<exists>v. dict_get r k d = Inr v"
  by (cases r) auto

lemma has_fields_row:
  assumes "has_fields r" shows "\<exists>row. table_row r = Inr row"
proof -
  obtain i where i: "subscript r ''id'' = Inr i"
    using has_fields_subscript [OF assms, of "''id''"] by (auto simp: RECORD_KEYS_def)
  obtain t where t: "subscript r ''type'' = Inr t"
    using has_fields_subscript [OF assms, of "''type''"] by (auto simp: RECORD_KEYS_def)
  obtain n where n: "subscript r ''name'' = Inr n"
    using has_fields_subscript [OF assms, of "''name''"] by (auto simp: RECORD_KEYS_def)
  obtain c where c: "subscript r ''content'' = Inr c"
    using has_fields_subscript [OF assms, of "''content''"] by (auto simp: RECORD_KEYS_def)
  obtain l where l: "subscript r ''ttl'' = Inr l"
    using has_fields_subscript [OF assms, of "''ttl''"] by (auto simp: RECORD_KEYS_def)
  obtain x where x: "subscript r ''proxied'' = Inr x"
    using has_fields_subscript [OF assms, of "''proxied''"] by (auto simp: RECORD_KEYS_def)
  obtain p where p: "dict_get r ''priority'' (JStr ''N/A'') = Inr p"
    using has_fields_get [OF assms] by blast
  show ?thesis by (simp add: table_row_def sbind_def i t n c l x p)
qed

lemma has_fields_rows: "list_all has_fields records \<Longrightarrow> \<exists>rows. table_rows records = Inr rows"
proof (induction records)
  case Nil show ?case by simp
next
  case (Cons r rs)
  then obtain row rows where "table_row r = Inr row" "table_rows rs = Inr rows"
    using has_fields_row [of r] by auto
  then show ?case by (simp add: sbind_def)
qed

lemma any_record_known:
  "list_all has_fields records \<Longrightarrow>
   any_record records rid = Inr (\<exists>r \<in> set records. subscript r ''id'' = Inr (JStr rid))"
proof (induction records)
  case Nil show ?case by simp
next
  case (Cons r rs)
  then obtain i where "subscript r ''id'' = Inr i"
    using has_fields_subscript [of r "''id''"] by (auto simp: RECORD_KEYS_def)
  with Cons show ?case by (auto simp: sbind_def)
qed

lemma find_record_absent:
  "list_all has_fields records \<Longrightarrow> \<forall>r \<in> set records. subscript r ''id'' \<noteq> Inr (JStr rid) \<Longrightarrow>
   find_record records rid = Inr None"
proof (induction records)
  case Nil show ?case by simp
next
  case (Cons r rs)
  then obtain i where "subscript r ''id'' = Inr i"
    using has_fields_subscript [of r "''id''"] by (auto simp: RECORD_KEYS_def)
  with Cons show ?case by (auto simp: sbind_def)
qed

lemma sample_records [simp]:
  "has_fields record_A" "has_fields record_MX" "has_fields record_SRV"
  by (simp_all add: record_A_def record_MX_def record_SRV_def RECORD_KEYS_def)

lemma http_log_error_report [simp]:
  "http_log (snd ((case r of Ok v \<Rightarrow> console_print a
                  | HTTPError e body \<Rightarrow> bind (lift (error_message body)) (\<lambda>m. console_print (b m))
                  | NoResponse e \<Rightarrow> raise AttributeError) w)) = http_log w"
  using quiet_error_report [where r = r and a = a and b = b] by (simp add: quiet_def)

lemma lower_Nil [simp]: "lower a = [] \<longleftrightarrow> a = []"
  by (simp add: lower_def)

lemma bind_input_or:
  assumes "map_of kvs k = Some v" and "keyboard w = t # ts"
  shows "bind (input_or label (JObj kvs) k) f w =
         f (if t = [] then v else JStr t)
           (w\<lparr>console := console w @ [Prompt [S label, V v, S ''): '']], keyboard := ts\<rparr>)"
  using assms by (simp add: input_or_def bind_console_input_Cons)

lemma request_of_same: "HEADERS w' = HEADERS w \<Longrightarrow> request_of m u b w' = request_of m u b w"
  by (simp add: request_of_def)

subsection \<open>What an update sends\<close>

lemma update_found_MX:
  assumes "map_of kvs ''type'' = Some t0" and "map_of kvs ''name'' = Some n0"
    and "map_of kvs ''content'' = Some c0" and "map_of kvs ''ttl'' = Some l0"
    and "map_of kvs ''proxied'' = Some x0"
    and "keyboard w = t # n # c # l # p # a # rest"
    and "(if t = [] then t0 else JStr t) = JStr ''MX''"
    and "l = [] \<or> py_int l = Inr ln"
    and "p = [] \<or> py_int p = Inr pn"
  shows "http_log (snd (update_found zone_id rid (JObj kvs) w)) =
     http_log w @
       [request_of PUT (API_BASE_URL @ ''/zones/'' @ zone_id @ ''/dns_records/'' @ rid)
          (Some ([(''type'', JStr ''MX''), (''name'', if n = [] then n0 else JStr n),
                  (''content'', if c = [] then c0 else JStr c),
                  (''ttl'', if l = [] then l0 else JInt ln)]
                 @ (if p \<noteq> [] then [(''priority'', JInt pn)]
                    else case map_of kvs ''priority'' of
                           None \<Rightarrow> []
                         | Some v \<Rightarrow> if truthy v then [(''priority'', v)] else [])
                 @ [(''proxied'', if a = [] then x0 else JBool (lower a = ''yes''))])) w]"
proof -
  have ttl: "(if l \<noteq> [] then lift (sbind (py_int l) (\<lambda>n. Inr (JInt n)))
              else lift (subscript (JObj kvs) ''ttl''))
             = ret (if l = [] then l0 else JInt ln)"
    using assms(4,8) by (cases "l = []") (simp_all add: sbind_def ret_def lift_def fun_eq_iff)
  have prox: "(if a \<noteq> [] then ret (JBool (lower a = ''yes''))
               else lift (subscript (JObj kvs) ''proxied''))
             = ret (if a = [] then x0 else JBool (lower a = ''yes''))"
    using assms(5) by (cases "a = []") (simp_all add: ret_def lift_def fun_eq_iff)
  show ?thesis
  proof (cases "p = []")
    case True
    show ?thesis
    proof (cases "map_of kvs ''priority''")
      case None
      show ?thesis
        by (simp add: update_found_def bind_input_or assms(1-7) bind_console_input_Cons Let_def
            ttl prox True None split del: if_split)
    next
      case (Some v)
      show ?thesis
        by (cases "truthy v")
           (simp_all add: update_found_def bind_input_or assms(1-7) bind_console_input_Cons Let_def
            ttl prox True Some split del: if_split)
    qed
  next
    case False
    with assms(9) have pn: "py_int p = Inr pn" by simp
    show ?thesis
      by (simp add: update_found_def bind_input_or assms(1-7) bind_console_input_Cons Let_def
          ttl prox False pn split del: if_split)
  qed
qed

lemma update_found_other:
  assumes "map_of kvs ''type'' = Some t0" and "map_of kvs ''name'' = Some n0"
    and "map_of kvs ''content'' = Some c0" and "map_of kvs ''ttl'' = Some l0"
    and "map_of kvs ''proxied'' = Some x0"
    and "keyboard w = t # n # c # l # a # rest"
    and "(if t = [] then t0 else JStr t) \<noteq> JStr ''MX''"
    and "l = [] \<or> py_int l = Inr ln"
  shows "http_log (snd (update_found zone_id rid (JObj kvs) w)) =
     http_log w @
       [request_of PUT (API_BASE_URL @ ''/zones/'' @ zone_id @ ''/dns_records/'' @ rid)
          (Some [(''type'', if t = [] then t0 else JStr t), (''name'', if n = [] then n0 else JStr n),
                 (''content'', if c = [] then c0 else JStr c),
                 (''ttl'', if l = [] then l0 else JInt ln),
                 (''proxied'', if a = [] then x0 else JBool (lower a = ''yes''))]) w]"
proof -
  have ttl: "(if l \<noteq> [] then lift (sbind (py_int l) (\<lambda>n. Inr (JInt n)))
              else lift (subscript (JObj kvs) ''ttl''))
             = ret (if l = [] then l0 else JInt ln)"
    using assms(4,8) by (cases "l = []") (simp_all add: sbind_def ret_def lift_def fun_eq_iff)
  have prox: "(if a \<noteq> [] then ret (JBool (lower a = ''yes''))
               else lift (subscript (JObj kvs) ''proxied''))
             = ret (if a = [] then x0 else JBool (lower a = ''yes''))"
    using assms(5) by (cases "a = []") (simp_all add: ret_def lift_def fun_eq_iff)
  show ?thesis
    by (simp add: update_found_def bind_input_or assms(1-7) bind_console_input_Cons Let_def
        ttl prox split del: if_split)
qed

lemma find_record_first:
  assumes "list_all has_fields before"
    and "\<forall>r \<in> set before. subscript r ''id'' \<noteq> Inr (JStr rid)"
    and "map_of kvs ''id'' = Some (JStr rid)"
  shows "find_record (before @ JObj kvs # after) rid = Inr (Some (JObj kvs))"
  using assms
proof (induction before)
  case Nil then show ?case by (simp add: sbind_def)
next
  case (Cons r rs)
  then obtain i where "subscript r ''id'' = Inr i"
    using has_fields_subscript [of r "''id''"] by (auto simp: RECORD_KEYS_def)
  with Cons show ?case by (auto simp: sbind_def)
qed

lemma update_dns_record_found:
  assumes "list_all has_fields (before @ JObj kvs # after)"
    and "\<forall>r \<in> set before. subscript r ''id'' \<noteq> Inr (JStr rid)"
    and "map_of kvs ''id'' = Some (JStr rid)"
    and "keyboard w = rid # ks"
  shows "\<exists>w'. keyboard w' = ks \<and> http_log w' = http_log w \<and> HEADERS w' = HEADERS w \<and>
           update_dns_record zone_id (before @ JObj kvs # after) w = update_found zone_id rid (JObj kvs) w'"
proof -
  obtain rows where rows: "table_rows (before @ JObj kvs # after) = Inr rows"
    using has_fields_rows [OF assms(1)] by blast
  have found: "find_record (before @ JObj kvs # after) rid = Inr (Some (JObj kvs))"
    using find_record_first assms(1-3) by simp
  have ne: "kvs \<noteq> []" using assms(3) by auto
  let ?w = "w\<lparr>console := console w @
              [Table [S ''DNS Records for '', S (cf_domain w)] COLUMNS rows,
               Prompt [S (CHR 0x0A # ''Enter the ID of the record to update: '')]],
             keyboard := ks\<rparr>"
  have "update_dns_record zone_id (before @ JObj kvs # after) w = update_found zone_id rid (JObj kvs) ?w"
    using assms(4) ne
    by (simp add: update_dns_record_def bind_display [OF rows] bind_console_input_Cons found)
  moreover have "keyboard ?w = ks" "http_log ?w = http_log w" "HEADERS ?w = HEADERS w"
    by (simp_all add: HEADERS_def)
  ultimately show ?thesis by blast
qed

lemma update_dns_record_MX:
  assumes "list_all has_fields (before @ JObj kvs # after)"
    and "\<forall>r \<in> set before. subscript r ''id'' \<noteq> Inr (JStr rid)"
    and "map_of kvs ''id'' = Some (JStr rid)"
    and "map_of kvs ''type'' = Some t0" and "map_of kvs ''name'' = Some n0"
    and "map_of kvs ''content'' = Some c0" and "map_of kvs ''ttl'' = Some l0"
    and "map_of kvs ''proxied'' = Some x0"
    and "keyboard w = rid # t # n # c # l # p # a # rest"
    and "(if t = [] then t0 else JStr t) = JStr ''MX''"
    and "l = [] \<or> py_int l = Inr ln"
    and "p = [] \<or> py_int p = Inr pn"
  shows "http_log (snd (update_dns_record zone_id (before @ JObj kvs # after) w)) =
     http_log w @
       [request_of PUT (API_BASE_URL @ ''/zones/'' @ zone_id @ ''/dns_records/'' @ rid)
          (Some ([(''type'', JStr ''MX''), (''name'', if n = [] then n0 else JStr n),
                  (''content'', if c = [] then c0 else JStr c),
                  (''ttl'', if l = [] then l0 else JInt ln)]
                 @ (if p \<noteq> [] then [(''priority'', JInt pn)]
                    else case map_of kvs ''priority'' of
                           None \<Rightarrow> []
                         | Some v \<Rightarrow> if truthy v then [(''priority'', v)] else [])
                 @ [(''proxied'', if a = [] then x0 else JBool (lower a = ''yes''))])) w]"
proof -
  obtain w' where w': "keyboard w' = t # n # c # l # p # a # rest" "http_log w' = http_log w"
      "HEADERS w' = HEADERS w"
      "update_dns_record zone_id (before @ JObj kvs # after) w = update_found zone_id rid (JObj kvs) w'"
    using update_dns_record_found [OF assms(1-3,9)] by blast
  show ?thesis
    unfolding w'(4)
    using update_found_MX [OF assms(4-8) w'(1) assms(10-12), of zone_id rid]
    by (simp add: w'(2) request_of_same [OF w'(3)])
qed

lemma update_dns_record_other:
  assumes "list_all has_fields (before @ JObj kvs # after)"
    and "\<forall>r \<in> set before. subscript r ''id'' \<noteq> Inr (JStr rid)"
    and "map_of kvs ''id'' = Some (JStr rid)"
    and "map_of kvs ''type'' = Some t0" and "map_of kvs ''name'' = Some n0"
    and "map_of kvs ''content'' = Some c0" and "map_of kvs ''ttl'' = Some l0"
    and "map_of kvs ''proxied'' = Some x0"
    and "keyboard w = rid # t # n # c # l # a # rest"
    and "(if t = [] then t0 else JStr t) \<noteq> JStr ''MX''"
    and "l = [] \<or> py_int l = Inr ln"
  shows "http_log (snd (update_dns_record zone_id (before @ JObj kvs # after) w)) =
     http_log w @
       [request_of PUT (API_BASE_URL @ ''/zones/'' @ zone_id @ ''/dns_records/'' @ rid)
          (Some [(''type'', if t = [] then t0 else JStr t), (''name'', if n = [] then n0 else JStr n),
                 (''content'', if c = [] then c0 else JStr c),
                 (''ttl'', if l = [] then l0 else JInt ln),
                 (''proxied'', if a = [] then x0 else JBool (lower a = ''yes''))]) w]"
proof -
  obtain w' where w': "keyboard w' = t # n # c # l # a # rest" "http_log w' = http_log w"
      "HEADERS w' = HEADERS w"
      "update_dns_record zone_id (before @ JObj kvs # after) w = update_found zone_id rid (JObj kvs) w'"
    using update_dns_record_found [OF assms(1-3,9)] by blast
  show ?thesis
    unfolding w'(4)
    using update_found_other [OF assms(4-8) w'(1) assms(10,11), of zone_id rid]
    by (simp add: w'(2) request_of_same [OF w'(3)])
qed

subsection \<open>The priority of what is sent\<close>

lemma sends_table [simp]: "sends P (console_print_table t c rows)"
  by (simp add: sends_quiet)

lemma quiet_if: "quiet a \<Longrightarrow> quiet b \<Longrightarrow> quiet (if c then a else b)"
  by simp

lemma quiet_input_or [simp]: "quiet (input_or label r k)"
  unfolding input_or_def by (intro quiet_bind quiet_if quiet_simple)

lemma quiet_display [simp]: "quiet (display_dns_records records)"
  unfolding display_dns_records_def by (intro quiet_bind quiet_simple)

lemma sends_bind_yields:
  assumes "quiet m" and "yields Q m" and "\<And>x. Q x \<Longrightarrow> sends P (f x)"
  shows "sends P (bind m f)"
  unfolding sends_def
proof
  fix w
  show "http_log (snd (bind m f w)) = http_log w \<or>
        (\<exists>q. http_log (snd (bind m f w)) = http_log w @ [q] \<and> P q)"
  proof (cases "m w")
    case (Pair r w')
    from assms(1) Pair have h: "http_log w' = http_log w"
      unfolding quiet_def by (metis snd_conv)
    show ?thesis
    proof (cases r)
      case (Inl e)
      with Pair h show ?thesis by (simp add: bind_def)
    next
      case (Inr x)
      with Pair assms(2) have "Q x" unfolding yields_def by blast
      then have "sends P (f x)" by (rule assms(3))
      then have "http_log (snd (f x w')) = http_log w' \<or>
        (\<exists>q. http_log (snd (f x w')) = http_log w' @ [q] \<and> P q)"
        unfolding sends_def by blast
      with Pair Inr h show ?thesis by (simp add: bind_def)
    qed
  qed
qed

lemma yields_simple:
  "Q x \<Longrightarrow> yields Q (ret x)" "yields Q (raise e)"
  by (simp_all add: yields_def ret_def raise_def)

lemma yields_bind: "(\<And>x. yields Q (f x)) \<Longrightarrow> yields Q (bind m f)"
  unfolding yields_def bind_def by (auto split: prod.splits sum.splits)

lemma yields_if: "(c \<Longrightarrow> yields Q a) \<Longrightarrow> (\<not> c \<Longrightarrow> yields Q b) \<Longrightarrow> yields Q (if c then a else b)"
  by simp


lemma priority_only_MX_proxied:
  "priority_only_MX data \<Longrightarrow> priority_only_MX (AList.update ''proxied'' x data)"
  by (auto simp: priority_only_MX_def update_conv' dom_update)

lemma update_found_sends:
  "sends (\<lambda>q. case json q of None \<Rightarrow> False | Some body \<Rightarrow> priority_only_MX body)
         (update_found zone_id rid r)"
  unfolding update_found_def Let_def
  apply (intro sends_step sends_bind [OF quiet_input_or]
               sends_bind [OF quiet_if [OF quiet_simple(3) quiet_simple(3)]])
  apply (rule sends_bind_yields [where Q = priority_only_MX])
    apply (intro quiet_if quiet_bind quiet_simple)
   apply (intro yields_if yields_bind yields_simple)
      apply (simp_all add: priority_only_MX_def)[4]
  apply (intro sends_step sends_bind [OF quiet_if [OF quiet_simple(1) quiet_simple(3)]] sends_send)
   apply (simp_all add: request_of_def priority_only_MX_proxied)
  done


lemma add_sends_priority:
  "sends (\<lambda>q. case json q of None \<Rightarrow> False | Some body \<Rightarrow> priority_iff_MX body)
         (add_dns_record zone_id)"
  unfolding add_dns_record_def Let_def
  by (auto intro!: sends_step sends_send
      simp: request_of_def priority_iff_MX_def bind_if)

lemma update_sends_priority:
  "sends (\<lambda>q. case json q of None \<Rightarrow> False | Some body \<Rightarrow> priority_only_MX body)
         (update_dns_record zone_id records)"
  unfolding update_dns_record_def
  apply (intro sends_step sends_bind [OF quiet_display])
  apply (auto split: option.splits simp: update_found_sends)
  done

subsection \<open>What a creation sends\<close>

lemma add_dns_record_request:
  assumes "keyboard w = typed # name # content # ttl_str # others"
    and "others = (if upper typed = ''MX'' then priority_str # answer # rest else answer # rest)"
    and "ttl_str = [] \<or> py_int ttl_str = Inr ttl"
    and "upper typed = ''MX'' \<longrightarrow> py_int priority_str = Inr priority"
  shows "http_log (snd (add_dns_record zone_id w)) =
     http_log w @
       [request_of POST (API_BASE_URL @ ''/zones/'' @ zone_id @ ''/dns_records'')
          (Some ([(''type'', JStr (upper typed)), (''name'', JStr name), (''content'', JStr content),
                  (''ttl'', JInt (if ttl_str = [] then 1 else ttl))]
                 @ (if upper typed = ''MX'' then [(''priority'', JInt priority)] else [])
                 @ [(''proxied'', JBool (lower answer = ''yes''))])) w]"
proof (cases "upper typed = ''MX''")
  case True
  with assms have kb: "keyboard w = typed # name # content # ttl_str # priority_str # answer # rest"
    and p: "py_int priority_str = Inr priority" by simp_all
  from assms(3) show ?thesis
    by (cases "ttl_str = []")
       (simp_all add: add_dns_record_def bind_console_input_Cons kb p True Let_def)
next
  case False
  with assms have kb: "keyboard w = typed # name # content # ttl_str # answer # rest" by simp
  from assms(3) show ?thesis
    by (cases "ttl_str = []")
       (simp_all add: add_dns_record_def bind_console_input_Cons kb False Let_def)
qed

lemma add_sends_create_request:
  "sends (create_request zone_id) (add_dns_record zone_id)"
  unfolding add_dns_record_def Let_def
  by (auto intro!: sends_step sends_send
      simp: request_of_def create_request_def create_fields_def bind_if)

subsection \<open>Rows of the table\<close>

lemma table_row_Inr_has_fields:
  assumes "table_row r = Inr row" shows "has_fields r"
proof (cases r)
  case (JObj kvs)
  with assms show ?thesis
    by (simp add: table_row_def sbind_def RECORD_KEYS_def split: option.splits)
qed (use assms in \<open>simp_all add: table_row_def sbind_def\<close>)

lemma table_rows_Inr_has_fields:
  "table_rows records = Inr rows \<Longrightarrow> list_all has_fields records"
proof (induction records arbitrary: rows)
  case Nil show ?case by simp
next
  case (Cons r rs)
  then show ?case
    by (auto simp: sbind_def split: sum.splits dest: table_row_Inr_has_fields)
qed

lemma display_only_if:
  "fst (display_dns_records records w) = Inr () \<Longrightarrow> list_all has_fields records"
  by (cases "table_rows records")
     (simp_all add: display_dns_records_def raise_def table_rows_Inr_has_fields)

lemma table_row_missing:
  assumes "find (\<lambda>k. map_of kvs k = None) RECORD_KEYS = Some k"
  shows "table_row (JObj kvs) = Inl (KeyError (JStr k))"
  using assms
  by (auto simp: table_row_def sbind_def RECORD_KEYS_def split: if_splits option.splits)

lemma table_row_no_priority:
  assumes "has_fields (JObj kvs)" and "map_of kvs ''priority'' = None"
  shows "\<exists>row. table_row (JObj kvs) = Inr row \<and> length row = 7 \<and> row ! 5 = Text ''N/A''"
  using assms
  by (auto simp: table_row_def sbind_def RECORD_KEYS_def split: option.splits)

lemma table_rows_stop:
  "table_rows before = Inr rows \<Longrightarrow> table_row r = Inl e \<Longrightarrow> table_rows (before @ r # after) = Inl e"
  by (induction before arbitrary: rows) (auto simp: sbind_def split: sum.splits)

lemma table_rows_nth:
  "table_rows records = Inr rows \<Longrightarrow>
   length rows = length records \<and> (\<forall>i < length records. table_row (records ! i) = Inr (rows ! i))"
proof (induction records arbitrary: rows)
  case Nil then show ?case by simp
next
  case (Cons r rs)
  then obtain row rows' where r: "table_row r = Inr row" "table_rows rs = Inr rows'" "rows = row # rows'"
    by (auto simp: sbind_def split: sum.splits)
  from Cons.IH [OF r(2)] r show ?case
    by (auto simp: nth_Cons split: nat.splits)
qed

lemma display_table:
  assumes "list_all has_fields records"
  shows "\<exists>rows. display_dns_records records w =
                  (Inr (), w\<lparr>console := console w @
                     [Table [S ''DNS Records for '', S (cf_domain w)] COLUMNS rows]\<rparr>)
              \<and> table_rows records = Inr rows \<and> length rows = length records
              \<and> (\<forall>i < length records. \<forall>fields.
                    records ! i = JObj fields \<and> map_of fields ''priority'' = None \<longrightarrow>
                    length (rows ! i) = 7 \<and> rows ! i ! 5 = Text ''N/A'')"
proof -
  obtain rows where rows: "table_rows records = Inr rows"
    using has_fields_rows [OF assms] by blast
  have d: "display_dns_records records w =
                  (Inr (), w\<lparr>console := console w @
                     [Table [S ''DNS Records for '', S (cf_domain w)] COLUMNS rows]\<rparr>)"
    by (simp add: display_dns_records_def rows console_print_table_def)
  have n: "length rows = length records"
    and r: "\<And>i. i < length records \<Longrightarrow> table_row (records ! i) = Inr (rows ! i)"
    using table_rows_nth [OF rows] by simp_all
  have "length (rows ! i) = 7 \<and> rows ! i ! 5 = Text ''N/A''"
    if "i < length records" "records ! i = JObj fields" "map_of fields ''priority'' = None" for i fields
  proof -
    from assms that(1) have "has_fields (records ! i)" by (simp add: list_all_length)
    with that(2,3) obtain row where "table_row (JObj fields) = Inr row" "length row = 7" "row ! 5 = Text ''N/A''"
      using table_row_no_priority by metis
    with r [OF that(1)] that(2) show ?thesis by simp
  qed
  with d rows n show ?thesis by blast
qed


section \<open>Zone resolution\<close>

text \<open>
  C6. When the provider answers the zone lookup with a result list: an empty list makes
  \<open>get_zone_id\<close> print that the domain was not found and leave by \<^verbatim>\<open>sys.exit(1)\<close>; a list
  with one entry or more makes it return the \<^verbatim>\<open>id\<close> of the first entry, whatever follows.
\<close>

theorem get_zone_id_result:
  assumes "net w (http_log w) (request_of GET (API_BASE_URL @ ''/zones?name='' @ d) None w) = Ok data"
    and "subscript data ''result'' = Inr (JArr zones)"
  shows "get_zone_id d w =
     (case zones of
        [] \<Rightarrow>
          (Inl (SystemExit 1),
           w\<lparr>http_log := http_log w @ [request_of GET (API_BASE_URL @ ''/zones?name='' @ d) None w],
             console := console w @
               [Print [S (''[bold red]Error: Domain '' @ [CHR 0x27]), S d,
                       S (CHR 0x27 # '' not found in your Cloudflare account.[/bold red]'')]]\<rparr>)
      | z # zs \<Rightarrow>
          (subscript z ''id'',
           w\<lparr>http_log := http_log w @ [request_of GET (API_BASE_URL @ ''/zones?name='' @ d) None w]\<rparr>))"
  using assms by (simp add: get_zone_id_def raise_def lift_def sbind_def split: list.splits)

theorem get_zone_id_result_witness:
  "fst (get_zone_id ''example.com'' (demo [] (always (Ok (JObj [(''result'', JArr [])]))))) = Inl (SystemExit 1)
   \<and> fst (get_zone_id ''example.com''
        (demo [] (always (Ok (JObj [(''result'', JArr [JObj [(''id'', JStr ''z1'')], JObj [(''id'', JStr ''z2'')]])])))))
     = Inr (JStr ''z1'')"
proof -
  have none: "fst (get_zone_id ''example.com'' (demo [] (always (Ok (JObj [(''result'', JArr [])]))))) = Inl (SystemExit 1)"
    using get_zone_id_result [of "demo [] (always (Ok (JObj [(''result'', JArr [])])))" "''example.com''"
                                 "JObj [(''result'', JArr [])]" "[]"]
    by (simp add: demo_def always_def)
  have some: "fst (get_zone_id ''example.com''
        (demo [] (always (Ok (JObj [(''result'', JArr [JObj [(''id'', JStr ''z1'')], JObj [(''id'', JStr ''z2'')]])])))))
     = Inr (JStr ''z1'')"
    using get_zone_id_result [of "demo [] (always (Ok (JObj [(''result'', JArr [JObj [(''id'', JStr ''z1'')], JObj [(''id'', JStr ''z2'')]])])))"
                                 "''example.com''"
                                 "JObj [(''result'', JArr [JObj [(''id'', JStr ''z1'')], JObj [(''id'', JStr ''z2'')]])]"
                                 "[JObj [(''id'', JStr ''z1'')], JObj [(''id'', JStr ''z2'')]]"]
    by (simp add: demo_def always_def)
  from none some show ?thesis by simp
qed

section \<open>Listing\<close>

text \<open>
  C7. When the listing request fails with a transport error (an error status, or no reply at
  all), \<open>get_dns_records\<close> does not raise: it prints the error text and returns the empty
  list.
\<close>

theorem get_dns_records_transport_error:
  assumes "failure (net w (http_log w)
             (request_of GET (API_BASE_URL @ ''/zones/'' @ zone_id @ ''/dns_records'') None w)) = Some e"
  shows "get_dns_records zone_id w =
     (Inr (JArr []),
      w\<lparr>http_log := http_log w @
           [request_of GET (API_BASE_URL @ ''/zones/'' @ zone_id @ ''/dns_records'') None w],
        console := console w @
           [Print [S ''[bold red]API Request Error: '', S e, S ''[/bold red]'']]\<rparr>)"
  using assms by (auto simp: get_dns_records_def ret_def split: reply.splits)

theorem get_dns_records_transport_error_witness:
  "fst (get_dns_records ''z1'' (demo [] (always (NoResponse ''Connection refused'')))) = Inr (JArr [])
   \<and> console (snd (get_dns_records ''z1'' (demo [] (always (NoResponse ''Connection refused'')))))
     = [Print [S ''[bold red]API Request Error: '', S ''Connection refused'', S ''[/bold red]'']]"
  using get_dns_records_transport_error [of "demo [] (always (NoResponse ''Connection refused''))" "''z1''"
                                            "''Connection refused''"]
  by (simp add: demo_def always_def)

section \<open>Adding a record\<close>



text \<open>
  C9. In \<open>add_dns_record\<close>, for a typed type of ASCII characters and answers that are a valid
  submission, the type that is sent and tested against \<^verbatim>\<open>MX\<close> is the typed one in upper
  case; a blank TTL answer gives \<^verbatim>\<open>ttl = 1\<close>; and \<^verbatim>\<open>proxied\<close> is true exactly when the answer
  to the proxy prompt, in lower case, is \<^verbatim>\<open>yes\<close>, so false for every other answer, the blank
  one too.
\<close>

theorem add_dns_record_normalises:
  assumes "ascii_text typed"
    and "keyboard w = typed # name # content # ttl_str # others"
    and "others = (if upper typed = ''MX'' then priority_str # answer # rest else answer # rest)"
    and "ttl_str = [] \<or> py_int ttl_str = Inr ttl"
    and "upper typed = ''MX'' \<longrightarrow> py_int priority_str = Inr priority"
  shows "http_log (snd (add_dns_record zone_id w)) =
     http_log w @
       [request_of POST (API_BASE_URL @ ''/zones/'' @ zone_id @ ''/dns_records'')
          (Some ([(''type'', JStr (upper typed)), (''name'', JStr name), (''content'', JStr content),
                  (''ttl'', JInt (if ttl_str = [] then 1 else ttl))]
                 @ (if upper typed = ''MX'' then [(''priority'', JInt priority)] else [])
                 @ [(''proxied'', JBool (lower answer = ''yes''))])) w]"
proof (cases "upper typed = ''MX''")
  case True
  with assms(2,3,5) have kb: "keyboard w = typed # name # content # ttl_str # priority_str # answer # rest"
    and p: "py_int priority_str = Inr priority" by simp_all
  from assms(4) show ?thesis
    by (cases "ttl_str = []")
       (simp_all add: add_dns_record_def bind_console_input_Cons kb p True Let_def)
next
  case False
  with assms(2,3) have kb: "keyboard w = typed # name # content # ttl_str # answer # rest" by simp
  from assms(4) show ?thesis
    by (cases "ttl_str = []")
       (simp_all add: add_dns_record_def bind_console_input_Cons kb False Let_def)
qed

theorem add_dns_record_normalises_witness:
  "http_log (snd (add_dns_record ''z1''
      (demo [''mx'', ''mail'', ''mail.example.com'', '''', ''10'', ''no''] (always (Ok JNull))))) =
   [request_of POST (API_BASE_URL @ ''/zones/z1/dns_records'')
      (Some [(''type'', JStr ''MX''), (''name'', JStr ''mail''), (''content'', JStr ''mail.example.com''),
             (''ttl'', JInt 1), (''priority'', JInt 10), (''proxied'', JBool False)])
      (demo [''mx'', ''mail'', ''mail.example.com'', '''', ''10'', ''no''] (always (Ok JNull)))]"
proof -
  have c: "ascii_text ''mx''" by code_simp
  have u: "upper ''mx'' = ''MX''" by code_simp
  have p: "py_int ''10'' = Inr 10" by code_simp
  have l: "(lower ''no'' = ''yes'') = False" by code_simp
  have k: "keyboard (demo [''mx'', ''mail'', ''mail.example.com'', '''', ''10'', ''no''] (always (Ok JNull)))
           = ''mx'' # ''mail'' # ''mail.example.com'' # '''' # [''10'', ''no'']"
    by (simp add: demo_def)
  have o: "[''10'', ''no''] = (if upper ''mx'' = ''MX'' then ''10'' # ''no'' # [] else ''no'' # [])"
    by (simp add: u)
  have t: "'''' = [] \<or> py_int '''' = Inr 0" by simp
  have q: "upper ''mx'' = ''MX'' \<longrightarrow> py_int ''10'' = Inr 10" by (simp add: p)
  show ?thesis
    using add_dns_record_normalises [OF c k o t q, of "''z1''"] by (simp add: u l demo_def)
qed

section \<open>Deleting a record\<close>

text \<open>
  C3. Once the records are shown and the typed id is one of theirs, \<open>delete_dns_record\<close>
  sends the DELETE request if the confirmation is one of the eight spellings of
  \<^verbatim>\<open>yes\<close>; for every other confirmation, the empty one too, it prints the cancellation and
  returns with nothing sent and nothing changed but the console and the keyboard.
\<close>

theorem delete_dns_record_confirmation:
  assumes "list_all has_fields records"
    and "\<exists>r \<in> set records. subscript r ''id'' = Inr (JStr rid)"
    and "keyboard w = rid # answer # rest"
  shows "\<exists>rows. table_rows records = Inr rows \<and>
     (if answer \<in> yes_spellings
      then http_log (snd (delete_dns_record zone_id records w)) =
             http_log w @ [request_of DELETE (API_BASE_URL @ ''/zones/'' @ zone_id @ ''/dns_records/'' @ rid) None w]
      else delete_dns_record zone_id records w =
             (Inr (),
              w\<lparr>console := console w @
                   [Table [S ''DNS Records for '', S (cf_domain w)] COLUMNS rows,
                    Prompt [S (CHR 0x0A # ''Enter the ID of the record to delete: '')],
                    Prompt [S ''Are you sure you want to delete record '', S rid, S ''? (yes/no): ''],
                    Print [S ''Deletion cancelled.'']],
                 keyboard := rest\<rparr>))"
proof -
  obtain rows where rows: "table_rows records = Inr rows"
    using has_fields_rows [OF assms(1)] by blast
  have known: "any_record records rid = Inr True"
    using any_record_known [OF assms(1), of rid] assms(2) by simp
  show ?thesis
    using assms(3) rows
    by (auto simp: delete_dns_record_def bind_display [OF rows] bind_console_input_Cons known
        lower_yes console_print_def Let_def split: reply.splits)
qed

theorem delete_dns_record_confirmation_witness:
  "http_log (snd (delete_dns_record ''z1'' [record_A, record_MX] (demo [''r2'', ''YES''] (always (Ok JNull))))) =
     [request_of DELETE (API_BASE_URL @ ''/zones/z1/dns_records/r2'') None (demo [''r2'', ''YES''] (always (Ok JNull)))]
   \<and> http_log (snd (delete_dns_record ''z1'' [record_A, record_MX] (demo [''r2'', ''y''] (always (Ok JNull))))) = []"
proof -
  have a: "list_all has_fields [record_A, record_MX]" by simp
  have b: "\<exists>r \<in> set [record_A, record_MX]. subscript r ''id'' = Inr (JStr ''r2'')"
    by (simp add: record_MX_def)
  have yes: "keyboard (demo [''r2'', ''YES''] (always (Ok JNull))) = ''r2'' # ''YES'' # []"
    and no: "keyboard (demo [''r2'', ''y''] (always (Ok JNull))) = ''r2'' # ''y'' # []"
    by (simp_all add: demo_def always_def)
  have "http_log (snd (delete_dns_record ''z1'' [record_A, record_MX] (demo [''r2'', ''YES''] (always (Ok JNull))))) =
     [request_of DELETE (API_BASE_URL @ ''/zones/z1/dns_records/r2'') None (demo [''r2'', ''YES''] (always (Ok JNull)))]"
    using delete_dns_record_confirmation [OF a b yes, of "''z1''"]
    by (auto simp: yes_spellings_def demo_def always_def)
  moreover have "http_log (snd (delete_dns_record ''z1'' [record_A, record_MX] (demo [''r2'', ''y''] (always (Ok JNull))))) = []"
    using delete_dns_record_confirmation [OF a b no, of "''z1''"]
    by (auto simp: yes_spellings_def demo_def always_def)
  ultimately show ?thesis by simp
qed

section \<open>An id that is not in the snapshot\<close>

text \<open>
  C4. When no record of the snapshot has the typed id, \<open>update_dns_record\<close> and
  \<open>delete_dns_record\<close> print that the id was not found and return normally; the log of
  requests is as it was: no PUT, no DELETE.
\<close>

theorem unknown_id_no_write:
  assumes "list_all has_fields records"
    and "\<forall>r \<in> set records. subscript r ''id'' \<noteq> Inr (JStr rid)"
    and "keyboard w = rid # rest"
  shows "\<exists>rows. table_rows records = Inr rows \<and>
     update_dns_record zone_id records w =
       (Inr (),
        w\<lparr>console := console w @
             [Table [S ''DNS Records for '', S (cf_domain w)] COLUMNS rows,
              Prompt [S (CHR 0x0A # ''Enter the ID of the record to update: '')],
              Print [S ''[bold red]Record ID not found.[/bold red]'']],
           keyboard := rest\<rparr>) \<and>
     delete_dns_record zone_id records w =
       (Inr (),
        w\<lparr>console := console w @
             [Table [S ''DNS Records for '', S (cf_domain w)] COLUMNS rows,
              Prompt [S (CHR 0x0A # ''Enter the ID of the record to delete: '')],
              Print [S ''[bold red]Record ID not found.[/bold red]'']],
           keyboard := rest\<rparr>)"
proof -
  obtain rows where rows: "table_rows records = Inr rows"
    using has_fields_rows [OF assms(1)] by blast
  have unknown: "any_record records rid = Inr False"
    using any_record_known [OF assms(1), of rid] assms(2) by simp
  have absent: "find_record records rid = Inr None"
    using find_record_absent [OF assms(1,2)] .
  have "update_dns_record zone_id records w =
       (Inr (),
        w\<lparr>console := console w @
             [Table [S ''DNS Records for '', S (cf_domain w)] COLUMNS rows,
              Prompt [S (CHR 0x0A # ''Enter the ID of the record to update: '')],
              Print [S ''[bold red]Record ID not found.[/bold red]'']],
           keyboard := rest\<rparr>)"
    using assms(3)
    by (simp add: update_dns_record_def bind_display [OF rows] bind_console_input_Cons absent
        console_print_def)
  moreover have "delete_dns_record zone_id records w =
       (Inr (),
        w\<lparr>console := console w @
             [Table [S ''DNS Records for '', S (cf_domain w)] COLUMNS rows,
              Prompt [S (CHR 0x0A # ''Enter the ID of the record to delete: '')],
              Print [S ''[bold red]Record ID not found.[/bold red]'']],
           keyboard := rest\<rparr>)"
    using assms(3)
    by (simp add: delete_dns_record_def bind_display [OF rows] bind_console_input_Cons unknown
        console_print_def)
  ultimately show ?thesis using rows by simp
qed


theorem unknown_id_no_write_witness:
  "fst (update_dns_record ''z1'' [record_A, record_MX] (demo [''r9''] (always (Ok JNull)))) = Inr ()
   \<and> http_log (snd (update_dns_record ''z1'' [record_A, record_MX] (demo [''r9''] (always (Ok JNull))))) = []
   \<and> fst (delete_dns_record ''z1'' [record_A, record_MX] (demo [''r9''] (always (Ok JNull)))) = Inr ()
   \<and> http_log (snd (delete_dns_record ''z1'' [record_A, record_MX] (demo [''r9''] (always (Ok JNull))))) = []"
proof -
  have a: "list_all has_fields [record_A, record_MX]" by simp
  have b: "\<forall>r \<in> set [record_A, record_MX]. subscript r ''id'' \<noteq> Inr (JStr ''r9'')"
    by (simp add: record_A_def record_MX_def)
  have k: "keyboard (demo [''r9''] (always (Ok JNull))) = ''r9'' # []"
    by (simp add: demo_def always_def)
  show ?thesis
    using unknown_id_no_write [OF a b k, of "''z1''"] by (auto simp: demo_def always_def)
qed

section \<open>Showing the records\<close>

text \<open>
  C10. \<open>display_dns_records\<close> returns normally only when every record has the six keys
  \<^verbatim>\<open>id\<close>, \<^verbatim>\<open>type\<close>, \<^verbatim>\<open>name\<close>, \<^verbatim>\<open>content\<close>, \<^verbatim>\<open>ttl\<close>, \<^verbatim>\<open>proxied\<close>. When every record has them, it
  returns normally and the console receives one table, titled with the domain, whose
  columns are \<open>COLUMNS\<close> (the sixth is \<^verbatim>\<open>Priority\<close>) and whose rows are those of the records,
  one for each, in their order; the row of a record with no \<^verbatim>\<open>priority\<close> has seven cells and
  its Priority cell is the text \<^verbatim>\<open>N/A\<close>. A dictionary that lacks one of the six keys, met
  after records that have them, makes the function raise \<^verbatim>\<open>KeyError\<close> for the first key it
  lacks, and no table is printed.
\<close>

theorem display_dns_records_keys:
  "(fst (display_dns_records records w) = Inr () \<longrightarrow> list_all has_fields records)
   \<and> (list_all has_fields records \<longrightarrow>
        (\<exists>rows. display_dns_records records w =
                   (Inr (), w\<lparr>console := console w @
                      [Table [S ''DNS Records for '', S (cf_domain w)] COLUMNS rows]\<rparr>)
               \<and> table_rows records = Inr rows \<and> length rows = length records
               \<and> COLUMNS ! 5 = ''Priority''
               \<and> (\<forall>i < length records. \<forall>fields.
                     records ! i = JObj fields \<and> map_of fields ''priority'' = None \<longrightarrow>
                     length (rows ! i) = 7 \<and> rows ! i ! 5 = Text ''N/A'')))
   \<and> (has_fields (JObj kvs) \<and> map_of kvs ''priority'' = None \<longrightarrow>
        (\<exists>row. table_row (JObj kvs) = Inr row \<and> length row = 7 \<and> row ! 5 = Text ''N/A''))
   \<and> (list_all has_fields before \<and> find (\<lambda>k. map_of kvs k = None) RECORD_KEYS = Some k \<longrightarrow>
        display_dns_records (before @ JObj kvs # after) w = (Inl (KeyError (JStr k)), w))"
proof (intro conjI impI)
  assume "fst (display_dns_records records w) = Inr ()"
  then show "list_all has_fields records" by (rule display_only_if)
next
  assume "list_all has_fields records"
  from display_table [OF this, of w] obtain rows
    where "display_dns_records records w =
             (Inr (), w\<lparr>console := console w @
                [Table [S ''DNS Records for '', S (cf_domain w)] COLUMNS rows]\<rparr>)"
      and "table_rows records = Inr rows" and "length rows = length records"
      and "\<forall>i < length records. \<forall>fields.
             records ! i = JObj fields \<and> map_of fields ''priority'' = None \<longrightarrow>
             length (rows ! i) = 7 \<and> rows ! i ! 5 = Text ''N/A''"
    by blast
  moreover have "COLUMNS ! 5 = ''Priority''" by (simp add: COLUMNS_def)
  ultimately show "\<exists>rows. display_dns_records records w =
                   (Inr (), w\<lparr>console := console w @
                      [Table [S ''DNS Records for '', S (cf_domain w)] COLUMNS rows]\<rparr>)
               \<and> table_rows records = Inr rows \<and> length rows = length records
               \<and> COLUMNS ! 5 = ''Priority''
               \<and> (\<forall>i < length records. \<forall>fields.
                     records ! i = JObj fields \<and> map_of fields ''priority'' = None \<longrightarrow>
                     length (rows ! i) = 7 \<and> rows ! i ! 5 = Text ''N/A'')"
    by blast
next
  assume "has_fields (JObj kvs) \<and> map_of kvs ''priority'' = None"
  then show "\<exists>row. table_row (JObj kvs) = Inr row \<and> length row = 7 \<and> row ! 5 = Text ''N/A''"
    using table_row_no_priority by blast
next
  assume a: "list_all has_fields before \<and> find (\<lambda>k. map_of kvs k = None) RECORD_KEYS = Some k"
  then obtain rows where "table_rows before = Inr rows"
    using has_fields_rows by blast
  moreover from a have "table_row (JObj kvs) = Inl (KeyError (JStr k))"
    using table_row_missing by blast
  ultimately have "table_rows (before @ JObj kvs # after) = Inl (KeyError (JStr k))"
    by (rule table_rows_stop)
  then show "display_dns_records (before @ JObj kvs # after) w = (Inl (KeyError (JStr k)), w)"
    by (simp add: display_dns_records_def raise_def)
qed

theorem display_dns_records_keys_witness:
  "(\<exists>rows. display_dns_records [record_A, record_MX] (demo [] (always (Ok JNull))) =
              (Inr (), (demo [] (always (Ok JNull)))
                 \<lparr>console := [Table [S ''DNS Records for '', S ''example.com''] COLUMNS rows]\<rparr>)
          \<and> length rows = 2 \<and> length (rows ! 0) = 7 \<and> rows ! 0 ! 5 = Text ''N/A''
          \<and> COLUMNS ! 5 = ''Priority'')
   \<and> (\<exists>row. table_row record_A = Inr row \<and> length row = 7 \<and> row ! 5 = Text ''N/A'')
   \<and> display_dns_records [record_MX, JObj [(''id'', JStr ''r7''), (''type'', JStr ''A'')], record_A]
        (demo [] (always (Ok JNull)))
      = (Inl (KeyError (JStr ''name'')), demo [] (always (Ok JNull)))"
proof -
  let ?w = "demo [] (always (Ok JNull))"
  let ?A = "[(''id'', JStr ''r1''), (''type'', JStr ''A''), (''name'', JStr ''www''),
             (''content'', JStr ''1.2.3.4''), (''ttl'', JInt 1), (''proxied'', JBool True)]"
  have f: "find (\<lambda>k. map_of [(''id'', JStr ''r7''), (''type'', JStr ''A'')] k = None) RECORD_KEYS = Some ''name''"
    by (simp add: RECORD_KEYS_def)
  have b: "list_all has_fields [record_MX]" by simp
  have a: "has_fields (JObj ?A) \<and> map_of ?A ''priority'' = None"
    by (simp add: RECORD_KEYS_def)
  have h: "list_all has_fields [record_A, record_MX]" by simp
  obtain rows where d: "display_dns_records [record_A, record_MX] ?w =
             (Inr (), ?w\<lparr>console := console ?w @
                [Table [S ''DNS Records for '', S (cf_domain ?w)] COLUMNS rows]\<rparr>)"
      and n: "length rows = length [record_A, record_MX]"
      and c: "COLUMNS ! 5 = ''Priority''"
      and r: "\<forall>i < length [record_A, record_MX]. \<forall>fields.
             [record_A, record_MX] ! i = JObj fields \<and> map_of fields ''priority'' = None \<longrightarrow>
             length (rows ! i) = 7 \<and> rows ! i ! 5 = Text ''N/A''"
    using display_dns_records_keys [where records = "[record_A, record_MX]" and w = ?w] h by blast
  have "0 < length [record_A, record_MX]" by simp
  with r have "\<forall>fields. [record_A, record_MX] ! 0 = JObj fields \<and> map_of fields ''priority'' = None \<longrightarrow>
             length (rows ! 0) = 7 \<and> rows ! 0 ! 5 = Text ''N/A''" by blast
  then have "[record_A, record_MX] ! 0 = JObj ?A \<and> map_of ?A ''priority'' = None \<longrightarrow>
             length (rows ! 0) = 7 \<and> rows ! 0 ! 5 = Text ''N/A''" by (rule spec)
  then have r0: "length (rows ! 0) = 7 \<and> rows ! 0 ! 5 = Text ''N/A''" by (simp add: record_A_def)
  from d have d': "display_dns_records [record_A, record_MX] ?w =
              (Inr (), ?w\<lparr>console := [Table [S ''DNS Records for '', S ''example.com''] COLUMNS rows]\<rparr>)"
    by (simp add: demo_def)
  from n have n': "length rows = 2" by simp
  have first: "\<exists>rows. display_dns_records [record_A, record_MX] ?w =
              (Inr (), ?w\<lparr>console := [Table [S ''DNS Records for '', S ''example.com''] COLUMNS rows]\<rparr>)
          \<and> length rows = 2 \<and> length (rows ! 0) = 7 \<and> rows ! 0 ! 5 = Text ''N/A''
          \<and> COLUMNS ! 5 = ''Priority''"
    using d' n' r0 c by blast
  have second: "\<exists>row. table_row record_A = Inr row \<and> length row = 7 \<and> row ! 5 = Text ''N/A''"
    using display_dns_records_keys [where kvs = ?A] a
    unfolding record_A_def by blast
  have third: "display_dns_records [record_MX, JObj [(''id'', JStr ''r7''), (''type'', JStr ''A'')], record_A] ?w
      = (Inl (KeyError (JStr ''name'')), ?w)"
    using display_dns_records_keys [where before = "[record_MX]" and k = "''name''"
        and kvs = "[(''id'', JStr ''r7''), (''type'', JStr ''A'')]" and after = "[record_A]"
        and w = ?w] f b
    by simp
  from first second third show ?thesis by blast
qed

section \<open>A write that gets no reply\<close>

text \<open>
  C5. When the POST or the PUT raises without a reply (\<^verbatim>\<open>e.response\<close> is \<^verbatim>\<open>None\<close>), the handler
  of \<open>add_dns_record\<close> and of \<open>update_dns_record\<close> evaluates \<^verbatim>\<open>e.response.json()\<close> and raises
  \<^verbatim>\<open>AttributeError\<close>: the function does not return, and nothing is reported.
\<close>

theorem write_without_response:
  "fst (add_dns_record ''z1''
      (demo [''A'', ''www'', ''1.2.3.4'', '''', ''no''] (always (NoResponse ''Connection refused''))))
    = Inl AttributeError
   \<and> fst (update_dns_record ''z1'' [record_A]
      (demo [''r1'', '''', '''', ''5.6.7.8'', '''', ''''] (always (NoResponse ''Connection refused''))))
    = Inl AttributeError"
proof -
  have u: "upper ''A'' = ''A''" by code_simp
  have add: "fst (add_dns_record ''z1''
      (demo [''A'', ''www'', ''1.2.3.4'', '''', ''no''] (always (NoResponse ''Connection refused''))))
    = Inl AttributeError"
    by (simp add: add_dns_record_def bind_console_input_Cons demo_def always_def u Let_def raise_def)
  obtain rows where rows: "table_rows [record_A] = Inr rows"
    using has_fields_rows [of "[record_A]"] by auto
  have upd: "fst (update_dns_record ''z1'' [record_A]
      (demo [''r1'', '''', '''', ''5.6.7.8'', '''', ''''] (always (NoResponse ''Connection refused''))))
    = Inl AttributeError"
    unfolding record_A_def
    by (simp add: update_dns_record_def bind_display [OF rows [unfolded record_A_def]]
          bind_console_input_Cons demo_def sbind_def update_found_def bind_input_or always_def
          Let_def raise_def)
  from add upd show ?thesis by simp
qed

section \<open>Updating a record\<close>

text \<open>
  C1 (as amended). When every prompt of an update is left blank, on a record of the
  snapshot that has the six keys, the body of the PUT holds the snapshot's own values of
  \<^verbatim>\<open>type\<close>, \<^verbatim>\<open>name\<close>, \<^verbatim>\<open>content\<close>, \<^verbatim>\<open>ttl\<close> and \<^verbatim>\<open>proxied\<close>, in this order, and its \<^verbatim>\<open>priority\<close>
  (between \<^verbatim>\<open>ttl\<close> and \<^verbatim>\<open>proxied\<close>) only when the type is \<^verbatim>\<open>MX\<close>: the priority of a record of
  another type is not sent. The statement covers an \<^verbatim>\<open>MX\<close> record that has no priority or one
  that Python holds true; it says nothing of an \<^verbatim>\<open>MX\<close> record whose priority is \<^verbatim>\<open>0\<close>.
\<close>

theorem update_all_blank:
  assumes "list_all has_fields (before @ JObj kvs # after)"
    and "\<forall>r \<in> set before. subscript r ''id'' \<noteq> Inr (JStr rid)"
    and "map_of kvs ''id'' = Some (JStr rid)"
    and "keyboard w = rid # '''' # '''' # '''' # '''' #
           (if map_of kvs ''type'' = Some (JStr ''MX'') then [''''] else []) @ '''' # rest"
    and "map_of kvs ''type'' = Some (JStr ''MX'') \<longrightarrow>
           (case map_of kvs ''priority'' of None \<Rightarrow> True | Some v \<Rightarrow> truthy v)"
  shows "http_log (snd (update_dns_record zone_id (before @ JObj kvs # after) w)) =
     http_log w @
       [request_of PUT (API_BASE_URL @ ''/zones/'' @ zone_id @ ''/dns_records/'' @ rid)
          (Some (fields_of kvs
                   ([''type'', ''name'', ''content'', ''ttl''] @
                    (if map_of kvs ''type'' = Some (JStr ''MX'') then [''priority''] else []) @
                    [''proxied'']))) w]"
proof -
  from assms(1) have "has_fields (JObj kvs)" by simp
  then obtain t0 n0 c0 l0 x0 where f: "map_of kvs ''type'' = Some t0" "map_of kvs ''name'' = Some n0"
      "map_of kvs ''content'' = Some c0" "map_of kvs ''ttl'' = Some l0" "map_of kvs ''proxied'' = Some x0"
    by (auto simp: RECORD_KEYS_def)
  show ?thesis
  proof (cases "t0 = JStr ''MX''")
    case True
    with assms(4) f have kb: "keyboard w = rid # [] # [] # [] # [] # [] # [] # rest" by simp
    have mx: "(if ([]::string) = [] then t0 else JStr []) = JStr ''MX''" using True by simp
    from assms(5) True f show ?thesis
      using update_dns_record_MX [OF assms(1-3) f kb mx, of 0 0 zone_id]
      by (auto simp: fields_of_def split: option.splits)
  next
    case False
    with assms(4) f have kb: "keyboard w = rid # [] # [] # [] # [] # [] # rest" by simp
    have mx: "(if ([]::string) = [] then t0 else JStr []) \<noteq> JStr ''MX''" using False by simp
    from False f show ?thesis
      using update_dns_record_other [OF assms(1-3) f kb mx, of 0 zone_id]
      by (simp add: fields_of_def)
  qed
qed


theorem update_all_blank_witness:
  "map json (http_log (snd (update_dns_record ''z1'' [record_A, record_MX]
      (demo [''r2'', '''', '''', '''', '''', '''', ''''] (always (Ok JNull))))))
   = [Some (snapshot_fields record_MX)]"
proof -
  let ?kvs = "[(''id'', JStr ''r2''), (''type'', JStr ''MX''), (''name'', JStr ''example.com''),
               (''content'', JStr ''mail.example.com''), (''ttl'', JInt 300),
               (''priority'', JInt 10), (''proxied'', JBool False)]"
  let ?w = "demo [''r2'', '''', '''', '''', '''', '''', ''''] (always (Ok JNull))"
  have r: "[record_A, record_MX] = [record_A] @ JObj ?kvs # []" by (simp add: record_MX_def)
  have a: "list_all has_fields ([record_A] @ JObj ?kvs # [])" by (simp add: RECORD_KEYS_def)
  have b: "\<forall>r \<in> set [record_A]. subscript r ''id'' \<noteq> Inr (JStr ''r2'')" by (simp add: record_A_def)
  have i: "map_of ?kvs ''id'' = Some (JStr ''r2'')" by simp
  have k: "keyboard ?w = ''r2'' # '''' # '''' # '''' # '''' #
             (if map_of ?kvs ''type'' = Some (JStr ''MX'') then [''''] else []) @ '''' # []"
    by (simp add: demo_def)
  have m: "map_of ?kvs ''type'' = Some (JStr ''MX'') \<longrightarrow>
             (case map_of ?kvs ''priority'' of None \<Rightarrow> True | Some v \<Rightarrow> truthy v)" by simp
  show ?thesis
    using update_all_blank [OF a b i k m, of "''z1''"]
    by (simp add: r request_of_def fields_of_def snapshot_fields_def record_MX_def demo_def)
qed

theorem update_all_blank_counterexample:
  "map json (http_log (snd (update_dns_record ''z1'' [record_A, record_MX, record_SRV]
      (demo [''r3'', '''', '''', '''', '''', ''''] (always (Ok JNull))))))
   = [Some [(''type'', JStr ''SRV''), (''name'', JStr ''_sip._tcp''),
            (''content'', JStr ''5 5060 sip.example.com''), (''ttl'', JInt 1),
            (''proxied'', JBool False)]]
   \<and> snapshot_fields record_SRV
     = [(''type'', JStr ''SRV''), (''name'', JStr ''_sip._tcp''),
        (''content'', JStr ''5 5060 sip.example.com''), (''ttl'', JInt 1),
        (''priority'', JInt 10), (''proxied'', JBool False)]
   \<and> map json (http_log (snd (update_dns_record ''z1'' [record_A, record_MX, record_SRV]
      (demo [''r3'', '''', '''', '''', '''', ''''] (always (Ok JNull))))))
     \<noteq> [Some (snapshot_fields record_SRV)]"
proof -
  let ?kvs = "[(''id'', JStr ''r3''), (''type'', JStr ''SRV''), (''name'', JStr ''_sip._tcp''),
               (''content'', JStr ''5 5060 sip.example.com''), (''ttl'', JInt 1),
               (''priority'', JInt 10), (''proxied'', JBool False)]"
  let ?w = "demo [''r3'', '''', '''', '''', '''', ''''] (always (Ok JNull))"
  have r: "[record_A, record_MX, record_SRV] = [record_A, record_MX] @ JObj ?kvs # []"
    by (simp add: record_SRV_def)
  have a: "list_all has_fields ([record_A, record_MX] @ JObj ?kvs # [])" by (simp add: RECORD_KEYS_def)
  have b: "\<forall>r \<in> set [record_A, record_MX]. subscript r ''id'' \<noteq> Inr (JStr ''r3'')"
    by (simp add: record_A_def record_MX_def)
  have f: "map_of ?kvs ''id'' = Some (JStr ''r3'')" "map_of ?kvs ''type'' = Some (JStr ''SRV'')"
    "map_of ?kvs ''name'' = Some (JStr ''_sip._tcp'')"
    "map_of ?kvs ''content'' = Some (JStr ''5 5060 sip.example.com'')"
    "map_of ?kvs ''ttl'' = Some (JInt 1)" "map_of ?kvs ''proxied'' = Some (JBool False)"
    by simp_all
  have k: "keyboard ?w = ''r3'' # '''' # '''' # '''' # '''' # '''' # []" by (simp add: demo_def)
  have t: "(if ([]::string) = [] then JStr ''SRV'' else JStr []) \<noteq> JStr ''MX''" by simp
  have l: "([]::string) = [] \<or> py_int [] = Inr 0" by simp
  have "map json (http_log (snd (update_dns_record ''z1'' [record_A, record_MX, record_SRV] ?w)))
   = [Some [(''type'', JStr ''SRV''), (''name'', JStr ''_sip._tcp''),
            (''content'', JStr ''5 5060 sip.example.com''), (''ttl'', JInt 1),
            (''proxied'', JBool False)]]"
    using update_dns_record_other [OF a b f k t l, of "''z1''"]
    by (simp add: r request_of_def demo_def)
  then show ?thesis
    by (simp add: snapshot_fields_def record_SRV_def fields_of_def)
qed





end
